theory Spec2Isabelle
  imports Main "HOL-Library.Word" "HOL-Library.AList"
begin

section \<open>BDM\_Server.h: the liveness-tracked callback\<close>

text \<open>
  \<^verbatim>\<open>#define CALLBACK_EXPIRE_COUNT 5\<close>. The counter it is compared with is an
  \<^verbatim>\<open>atomic<unsigned>\<close>; \<^verbatim>\<open>unsigned\<close> is taken as 32 bits wide, as on every
  platform the project builds for, and its arithmetic wraps around.
\<close>

definition CALLBACK_EXPIRE_COUNT :: "32 word" where
  "CALLBACK_EXPIRE_COUNT = 5"

text \<open>
  An Isabelle name cannot end in an underscore, so a member \<^verbatim>\<open>x_\<close> of the source
  is written \<open>x_'\<close> throughout.

  A \<^verbatim>\<open>std::mutex\<close> is free (\<open>None\<close>) or owned by one thread. The threads that
  matter for \<^verbatim>\<open>mu_\<close> are the one that runs the destructor and the others
  (responders, probers), told apart by a number.
\<close>

datatype owner = Destructor | Responder nat

type_synonym mutex = "owner option"

text \<open>
  \<^verbatim>\<open>class SocketCallback : public Callback\<close> with its members \<^verbatim>\<open>mu_\<close>,
  \<^verbatim>\<open>count_\<close> and \<^verbatim>\<open>isReady_\<close>. Of the base class \<^verbatim>\<open>Callback\<close>
  (declared in Server.h) only the fact that \<^verbatim>\<open>Callback::shutdown()\<close> has been
  called is kept, as the flag \<open>shutdown_signalled\<close>.
\<close>

record SocketCallback =
  mu_' :: mutex
  count_' :: "32 word"
  isReady_' :: "unit \<Rightarrow> 32 word"
  shutdown_signalled :: bool

text \<open>
  The constructor: \<^verbatim>\<open>Callback(), isReady_(isReady)\<close> and
  \<^verbatim>\<open>count_.store(0, memory_order_relaxed)\<close>. A fresh mutex is free.
\<close>

definition SocketCallback_ctor :: "(unit \<Rightarrow> 32 word) \<Rightarrow> SocketCallback" where
  "SocketCallback_ctor isReady =
     \<lparr>mu_' = None, count_' = 0, isReady_' = isReady, shutdown_signalled = False\<rparr>"

text \<open>
  \<^verbatim>\<open>lock.try_lock()\<close> on a deferred \<^verbatim>\<open>unique_lock\<close>: it succeeds when the mutex
  is free. (The standard lets \<^verbatim>\<open>try_lock\<close> fail on a free mutex too; a call that
  fails so takes the branch of a call that finds the mutex owned.) The lock is local to
  \<^verbatim>\<open>isValid\<close>, so it is released again when the call returns, on either
  \<^verbatim>\<open>return\<close>; the mutex the caller sees afterwards is the one it saw before.
\<close>

definition try_lock :: "mutex \<Rightarrow> bool" where
  "try_lock m = (m = None)"

text \<open>
  \<^verbatim>\<open>
  bool isValid(void)
  {
     unique_lock<mutex> lock(mu_, defer_lock);
     if (lock.try_lock())
     {
        auto count = count_.fetch_add(1, memory_order_relaxed) + 1;
        if (count >= CALLBACK_EXPIRE_COUNT)
           return false;
     }
     return true;
  }
  \<close>
  The result is the returned flag together with the object after the call.
  \<^verbatim>\<open>fetch_add\<close> stores the old value plus one (modulo \<open>2 ^ 32\<close>) and returns the
  old value, to which the code adds one again, so the local \<^verbatim>\<open>count\<close> equals the
  stored value.
\<close>

definition isValid :: "SocketCallback \<Rightarrow> bool \<times> SocketCallback" where
  "isValid cb =
     (if try_lock (mu_' cb) then
        (let old = count_' cb;
             cb' = cb\<lparr>count_' := old + 1\<rparr>;
             count = old + 1
         in if count \<ge> CALLBACK_EXPIRE_COUNT then (False, cb') else (True, cb'))
      else (True, cb))"

text \<open>\<^verbatim>\<open>void resetCounter(void) { count_.store(0, memory_order_relaxed); }\<close>\<close>

definition resetCounter :: "SocketCallback \<Rightarrow> SocketCallback" where
  "resetCounter cb = cb\<lparr>count_' := 0\<rparr>"

text \<open>
  \<open>isValid_repeat n cb\<close> is the object after \<open>n\<close> consecutive calls of
  \<^verbatim>\<open>isValid()\<close> with nothing in between (no \<^verbatim>\<open>resetCounter()\<close>, no other
  thread taking or releasing \<^verbatim>\<open>mu_\<close>); \<open>isValid_results n cb\<close> lists what the
  \<open>n\<close> calls returned, first call first. \<open>idle\<close> is a readiness function for the
  constructor, used where a concrete callback is needed.
\<close>

fun isValid_repeat :: "nat \<Rightarrow> SocketCallback \<Rightarrow> SocketCallback" where
  "isValid_repeat 0 cb = cb"
| "isValid_repeat (Suc n) cb = isValid_repeat n (snd (isValid cb))"

fun isValid_results :: "nat \<Rightarrow> SocketCallback \<Rightarrow> bool list" where
  "isValid_results 0 cb = []"
| "isValid_results (Suc n) cb = fst (isValid cb) # isValid_results n (snd (isValid cb))"

definition idle :: "unit \<Rightarrow> 32 word" where
  "idle u = 0"

subsection \<open>The destructor, step by step\<close>

text \<open>
  \<^verbatim>\<open>
  ~SocketCallback(void)
  {
     Callback::shutdown();

     //after signaling shutdown, grab the mutex to make sure
     //all responders threads have terminated
     unique_lock<mutex> lock(mu_);
  }
  \<close>
  The destructor runs next to other threads, so it is modelled by its program counter:
  at the entry; after the shutdown signal; holding \<^verbatim>\<open>mu_\<close>; after the closing
  brace of the body, where the local \<^verbatim>\<open>unique_lock\<close> has released \<^verbatim>\<open>mu_\<close> while
  the members \<^verbatim>\<open>isReady_\<close>, \<^verbatim>\<open>count_\<close>, \<^verbatim>\<open>mu_\<close> and the base
  \<^verbatim>\<open>Callback\<close> still exist; and done, when they have been destroyed and the object
  has ended.
\<close>

datatype dtor_pc = DtorEntry | DtorSignalled | DtorLocked | DtorUnlocked | DtorDone

text \<open>
  Modelled from the spec: \<^verbatim>\<open>Callback::shutdown()\<close> is defined in Server.h, which is
  not among the sources; by the spec it signals shutdown to any in-flight responder, which
  is recorded in \<open>shutdown_signalled\<close>.
\<close>

definition Callback_shutdown :: "SocketCallback \<Rightarrow> SocketCallback" where
  "Callback_shutdown cb = cb\<lparr>shutdown_signalled := True\<rparr>"

text \<open>
  One step of the destructor; \<open>None\<close> when it cannot take one. The constructor
  \<^verbatim>\<open>unique_lock<mutex> lock(mu_)\<close> calls the blocking \<^verbatim>\<open>mu_.lock()\<close>: the thread
  does not move while another thread owns the mutex. At the closing brace the lock is
  released first; the destruction of the members and of the base is a step of its own,
  and it does not look at \<^verbatim>\<open>mu_\<close>.
\<close>

fun dtor_step :: "SocketCallback \<Rightarrow> dtor_pc \<Rightarrow> (SocketCallback \<times> dtor_pc) option" where
  "dtor_step cb DtorEntry = Some (Callback_shutdown cb, DtorSignalled)"
| "dtor_step cb DtorSignalled =
     (if mu_' cb = None then Some (cb\<lparr>mu_' := Some Destructor\<rparr>, DtorLocked) else None)"
| "dtor_step cb DtorLocked = Some (cb\<lparr>mu_' := None\<rparr>, DtorUnlocked)"
| "dtor_step cb DtorUnlocked = Some (cb, DtorDone)"
| "dtor_step cb DtorDone = None"

text \<open>
  What the threads can do to one callback: the destructor takes a step; another thread
  \<open>t\<close> acquires \<^verbatim>\<open>mu_\<close> (only when it is free) or releases it (only when \<open>t\<close>
  owns it), as \<^verbatim>\<open>std::mutex\<close> has it; some thread calls \<^verbatim>\<open>isValid()\<close> or
  \<^verbatim>\<open>resetCounter()\<close>. The other threads can do so as long as the object exists,
  also after the destructor has released \<^verbatim>\<open>mu_\<close>; once the destructor is done the
  object is gone and nothing more happens to it.
\<close>

datatype action = Destroy | Acquire nat | Release nat | Probe | Reset

fun step :: "action \<Rightarrow> SocketCallback \<times> dtor_pc \<Rightarrow> (SocketCallback \<times> dtor_pc) option" where
  "step Destroy (cb, pc) = dtor_step cb pc"
| "step (Acquire t) (cb, pc) =
     (if pc \<noteq> DtorDone \<and> mu_' cb = None then Some (cb\<lparr>mu_' := Some (Responder t)\<rparr>, pc)
      else None)"
| "step (Release t) (cb, pc) =
     (if pc \<noteq> DtorDone \<and> mu_' cb = Some (Responder t) then Some (cb\<lparr>mu_' := None\<rparr>, pc)
      else None)"
| "step Probe (cb, pc) = (if pc \<noteq> DtorDone then Some (snd (isValid cb), pc) else None)"
| "step Reset (cb, pc) = (if pc \<noteq> DtorDone then Some (resetCounter cb, pc) else None)"




section \<open>BDM\_Server.h: the session\<close>

text \<open>\<^verbatim>\<open>enum WalletType { TypeWallet, TypeLockbox };\<close>\<close>

datatype WalletType = TypeWallet | TypeLockbox

text \<open>\<^verbatim>\<open>BinaryData\<close> is a string of bytes.\<close>

type_synonym BinaryData = "8 word list"

text \<open>\<^verbatim>\<open>struct walletRegStruct\<close>, the pending registration record.\<close>

record walletRegStruct =
  scrAddrVec :: "BinaryData list"
  IDstr :: string
  isNew :: bool
  type_' :: WalletType

text \<open>
  Modelled from the spec: class \<^verbatim>\<open>Arguments\<close> is declared in a header that is not
  among the sources; the spec treats it as an opaque typed value with a success/error
  encoding. \<open>'a\<close> is the opaque payload.
\<close>

datatype 'a Arguments = ErrorResult string | Args 'a

text \<open>
  \<^verbatim>\<open>function<Arguments(const vector<string>&, Arguments&)>\<close>, the type of a handler
  in \<^verbatim>\<open>methodMap_\<close>.
\<close>

type_synonym 'a handler = "string list \<Rightarrow> 'a Arguments \<Rightarrow> 'a Arguments"

text \<open>
  \<^verbatim>\<open>class BDV_Server_Object\<close>: the members the modelled functions read or write.
  The \<^verbatim>\<open>shared_ptr<SocketCallback> cb_\<close> is \<open>None\<close> when it is \<^verbatim>\<open>nullptr\<close>;
  the thread \<^verbatim>\<open>initT_\<close> is kept as the flag "running".
\<close>

record 'a BDV_Server_Object =
  methodMap_' :: "string \<rightharpoonup> 'a handler"
  initT_' :: bool
  cb_' :: "SocketCallback option"
  bdvID_' :: string
  wltRegMap_' :: "string \<rightharpoonup> walletRegStruct"

datatype error = NullDereference

text \<open>\<^verbatim>\<open>cb_->\<close>: dereferencing a null pointer has no defined result; the model reports it.\<close>

definition deref :: "'p option \<Rightarrow> error + 'p" where
  "deref p = (case p of None \<Rightarrow> Inl NullDereference | Some x \<Rightarrow> Inr x)"

text \<open>
  \<^verbatim>\<open>
  void resetCounter(void) const
  {
     if (cb_ != nullptr)
        cb_->resetCounter();
  }
  \<close>
  The method is \<^verbatim>\<open>const\<close>: it changes the callback the pointer leads to, not the
  pointer. The model keeps the callback inside the session record, so the result is the
  session with its callback reset, or the error of the dereference.
\<close>

definition BDV_resetCounter :: "'a BDV_Server_Object \<Rightarrow> error + 'a BDV_Server_Object" where
  "BDV_resetCounter bdv =
     (if cb_' bdv \<noteq> None then
        (case deref (cb_' bdv) of
           Inl e \<Rightarrow> Inl e
         | Inr cb \<Rightarrow> Inr (bdv\<lparr>cb_' := Some (resetCounter cb)\<rparr>))
      else Inr bdv)"

text \<open>\<^verbatim>\<open>const string& getID(void) const { return bdvID_; }\<close>\<close>

definition getID :: "'a BDV_Server_Object \<Rightarrow> string" where
  "getID bdv = bdvID_' bdv"

subsection \<open>Session functions whose bodies are not in the header\<close>

text \<open>
  Modelled from the spec: the constructor \<^verbatim>\<open>BDV_Server_Object(BlockDataManagerThread*)\<close>
  is only declared in BDM\_Server.h. By the spec a session has a server-generated id,
  a dispatch table built once at construction, no pending registration yet, an optional
  callback, and its background threads started. The table (built by the absent
  \<^verbatim>\<open>buildMethodMap\<close>), the callback and the id are parameters.
\<close>

definition BDV_Server_Object_ctor ::
  "(string \<rightharpoonup> 'a handler) \<Rightarrow> SocketCallback option \<Rightarrow> string \<Rightarrow> 'a BDV_Server_Object" where
  "BDV_Server_Object_ctor table cb newId =
     \<lparr>methodMap_' = table, initT_' = True, cb_' = cb, bdvID_' = newId, wltRegMap_' = Map.empty\<rparr>"

text \<open>
  Modelled from the spec: \<^verbatim>\<open>haltThreads\<close> is only declared. By the spec it is
  idempotent and signals and joins the session's background threads.
\<close>

definition haltThreads :: "'a BDV_Server_Object \<Rightarrow> 'a BDV_Server_Object" where
  "haltThreads bdv = bdv\<lparr>initT_' := False\<rparr>"

text \<open>A handler invocation: the key of the handler and the arguments passed.\<close>

type_synonym 'a invocation = "string \<times> string list \<times> 'a Arguments"

text \<open>
  Modelled from the spec: \<^verbatim>\<open>executeCommand\<close> is only declared. By the spec it looks
  \<open>method\<close> up in the dispatch table, fails with an "unknown method" result if it is
  absent, and otherwise invokes the handler with \<open>ids\<close> and \<open>args\<close> and returns its
  result. The second component lists the handler invocations the call made.
\<close>

definition executeCommand ::
  "'a BDV_Server_Object \<Rightarrow> string \<Rightarrow> string list \<Rightarrow> 'a Arguments
     \<Rightarrow> 'a Arguments \<times> 'a invocation list" where
  "executeCommand bdv method ids args =
     (case methodMap_' bdv method of
        None \<Rightarrow> (ErrorResult ''unknown method'', [])
      | Some handler \<Rightarrow> (handler ids args, [(method, ids, args)]))"

section \<open>BDM\_Server.h: the registry and pipeline orchestrator\<close>

text \<open>
  Modelled from the spec: the enumerations the constructor compares with are declared in
  headers that are not among the sources. \<^verbatim>\<open>ARMORY_DB_SUPER\<close> (the spec's
  full-indexing mode) and \<^verbatim>\<open>Node_UnitTest\<close> (its unit-test mode) are the two
  enumerators BDM\_Server.h names; the other constructors stand for the remaining
  database types and node types.
\<close>

datatype ARMORY_DB_TYPE = ARMORY_DB_BARE | ARMORY_DB_FULL | ARMORY_DB_SUPER

datatype NodeType = Node_BTC | Node_UnitTest

text \<open>
  The four lambdas of the constructor, each the body of a thread, and a
  \<^verbatim>\<open>std::thread\<close>: what it runs and whether it is still joinable.
\<close>

datatype thread_body = mainthread | outerthread | innerthread | gcThread

record thread =
  body :: thread_body
  joinable :: bool

definition start_thread :: "thread_body \<Rightarrow> thread" where
  "start_thread b = \<lparr>body = b, joinable = True\<rparr>"

text \<open>
  \<^verbatim>\<open>class Clients\<close>: the registry \<^verbatim>\<open>BDVs_\<close> (a map from id to session, kept as
  an association list), the run flag, the threads and the shutdown callback, which acts on
  the outer request server, a state of type \<open>'w\<close>. The blocking stacks and
  \<^verbatim>\<open>bdmT_\<close> are left out.
\<close>

record ('a, 'w) Clients =
  BDVs_' :: "(string \<times> 'a BDV_Server_Object) list"
  fcgiShutdownCallback_' :: "'w \<Rightarrow> 'w"
  run_' :: bool
  controlThreads_' :: "thread list"

text \<open>
  \<^verbatim>\<open>
  for (unsigned i = 0; i < innerThreadCount; i++)
     controlThreads_.push_back(thread(innerthread));
  \<close>
\<close>

lemma unat_inc: "i < (n::32 word) \<Longrightarrow> unat (i + 1) = Suc (unat i)"
proof -
  assume "i < n"
  then have "unat i < unat n" by (simp add: word_less_nat_alt)
  moreover have "unat n < 2 ^ 32" using unsigned_less [of n, where ?'a = nat] by simp
  ultimately show ?thesis by (simp add: unat_word_ariths)
qed

function spawn_inner :: "32 word \<Rightarrow> 32 word \<Rightarrow> thread list \<Rightarrow> thread list" where
  "spawn_inner i innerThreadCount threads =
     (if i < innerThreadCount
      then spawn_inner (i + 1) innerThreadCount (threads @ [start_thread innerthread])
      else threads)"
  by pat_completeness auto
termination
proof (relation "measure (\<lambda>(i, n, ts). unat n - unat i)")
  show "wf (measure (\<lambda>(i, n, ts). unat n - unat i))" by simp
next
  fix i innerThreadCount :: "32 word" and threads :: "thread list"
  assume lt: "i < innerThreadCount"
  then have "unat (i + 1) = Suc (unat i)" by (rule unat_inc)
  moreover have "unat i < unat innerThreadCount" using lt by (simp add: word_less_nat_alt)
  ultimately show "((i + 1, innerThreadCount, threads @ [start_thread innerthread]),
      (i, innerThreadCount, threads)) \<in> measure (\<lambda>(i, n, ts). unat n - unat i)"
    by simp
qed

text \<open>
  \<^verbatim>\<open>
  unsigned innerThreadCount = 2;
  if (BlockDataManagerConfig::getDbType() == ARMORY_DB_SUPER &&
     bdmT_->bdm()->config().nodeType_ != Node_UnitTest)
     innerThreadCount == thread::hardware_concurrency();
  \<close>
  The statement under the \<^verbatim>\<open>if\<close> is a comparison (\<^verbatim>\<open>==\<close>) whose value is
  dropped; it assigns nothing.
\<close>

definition innerThreadCount :: "ARMORY_DB_TYPE \<Rightarrow> NodeType \<Rightarrow> 32 word \<Rightarrow> 32 word" where
  "innerThreadCount dbType nodeType hardware_concurrency =
     (let count = 2 in
      if dbType = ARMORY_DB_SUPER \<and> nodeType \<noteq> Node_UnitTest
      then (let dropped = (count = hardware_concurrency) in count)
      else count)"

text \<open>
  The constructor \<^verbatim>\<open>Clients(BlockDataManagerThread* bdmT, function<void(void)>
  shutdownLambda)\<close>. What it reads from outside are parameters: the database type
  (\<^verbatim>\<open>BlockDataManagerConfig::getDbType()\<close>), the node type
  (\<^verbatim>\<open>bdmT_->bdm()->config().nodeType_\<close>) and \<^verbatim>\<open>thread::hardware_concurrency()\<close>.
  It sets the run flag, starts the command thread, the outer maintenance thread and the
  inner maintenance threads, registers the zero-conf callbacks with the engine (an effect
  on the engine, not on this object), and returns before starting the garbage collector
  when the node is a unit-test node.
\<close>

definition Clients_ctor ::
  "ARMORY_DB_TYPE \<Rightarrow> NodeType \<Rightarrow> 32 word \<Rightarrow> ('w \<Rightarrow> 'w) \<Rightarrow> ('a, 'w) Clients" where
  "Clients_ctor dbType nodeType hardware_concurrency shutdownLambda =
     (let threads = [start_thread mainthread, start_thread outerthread];
          threads = spawn_inner 0 (innerThreadCount dbType nodeType hardware_concurrency) threads;
          this = \<lparr>BDVs_' = [], fcgiShutdownCallback_' = shutdownLambda, run_' = True,
                   controlThreads_' = threads\<rparr>
      in if nodeType = Node_UnitTest then this
         else this\<lparr>controlThreads_' := threads @ [start_thread gcThread]\<rparr>)"

text \<open>How many of the threads of \<^verbatim>\<open>controlThreads_\<close> run a given body.\<close>

definition thread_count :: "thread_body \<Rightarrow> ('a, 'w) Clients \<Rightarrow> nat" where
  "thread_count b c = length (filter (\<lambda>t. body t = b) (controlThreads_' c))"

text \<open>
  How many of them are running: a \<^verbatim>\<open>std::thread\<close> constructed with a function is a
  started thread and is joinable until it is joined.
\<close>

definition running_count :: "thread_body \<Rightarrow> ('a, 'w) Clients \<Rightarrow> nat" where
  "running_count b c = length (filter (\<lambda>t. body t = b \<and> joinable t) (controlThreads_' c))"

subsection \<open>Registry functions whose bodies are not in the header\<close>

text \<open>
  Modelled from the spec: \<^verbatim>\<open>get\<close> is only declared. By the spec it returns the
  session registered under an id, or reports it absent.
\<close>

definition get :: "('a, 'w) Clients \<Rightarrow> string \<Rightarrow> 'a BDV_Server_Object option" where
  "get c bdvId = map_of (BDVs_' c) bdvId"

text \<open>
  Modelled from the spec: \<^verbatim>\<open>registerBDV\<close> is only declared. By the spec it allocates
  a new session id, constructs a session, inserts it into the registry and returns the id.
  The id the allocator hands out is the parameter \<open>newId\<close>; the dispatch table and the
  callback go to the session's constructor. How the allocator finds an id is not in the
  spec; that the id is new, that is, not registered at the time, is \<open>new_ids\<close> below.
\<close>

definition registerBDV ::
  "(string \<rightharpoonup> 'a handler) \<Rightarrow> SocketCallback option \<Rightarrow> string \<Rightarrow> ('a, 'w) Clients
     \<Rightarrow> string \<times> ('a, 'w) Clients" where
  "registerBDV table cb newId c =
     (let bdv = BDV_Server_Object_ctor table cb newId
      in (getID bdv, c\<lparr>BDVs_' := AList.update (getID bdv) bdv (BDVs_' c)\<rparr>))"

text \<open>
  Modelled from the spec: \<^verbatim>\<open>unregisterBDV\<close> is only declared. By the spec it removes
  the session from the registry and halts its threads. The second component is the session
  that left, halted, if there was one.
\<close>

definition unregisterBDV ::
  "string \<Rightarrow> ('a, 'w) Clients \<Rightarrow> ('a, 'w) Clients \<times> 'a BDV_Server_Object option" where
  "unregisterBDV bdvId c =
     (c\<lparr>BDVs_' := AList.delete bdvId (BDVs_' c)\<rparr>, map_option haltThreads (get c bdvId))"

text \<open>
  Modelled from the spec: \<^verbatim>\<open>garbageCollectorThread\<close> is only declared. By the spec a
  round of the garbage collector iterates the registry and, for each session with an
  attached callback, calls \<^verbatim>\<open>isValid()\<close>; on failure it removes the session.
  \<open>gc_probe\<close> is the probe of one session: \<open>None\<close> when the session is to be
  removed, otherwise the session with its callback as the probe left it. \<open>gc_sweep\<close>
  is the iteration and \<open>garbageCollect\<close> one round.
\<close>

definition gc_probe :: "'a BDV_Server_Object \<Rightarrow> 'a BDV_Server_Object option" where
  "gc_probe bdv =
     (case cb_' bdv of
        None \<Rightarrow> Some bdv
      | Some cb \<Rightarrow>
          (case isValid cb of
             (valid, cb') \<Rightarrow> if valid then Some (bdv\<lparr>cb_' := Some cb'\<rparr>) else None))"

fun gc_sweep ::
  "(string \<times> 'a BDV_Server_Object) list \<Rightarrow> (string \<times> 'a BDV_Server_Object) list" where
  "gc_sweep [] = []"
| "gc_sweep ((bdvId, bdv) # rest) =
     (case gc_probe bdv of
        None \<Rightarrow> gc_sweep rest
      | Some bdv' \<Rightarrow> (bdvId, bdv') # gc_sweep rest)"

definition garbageCollect :: "('a, 'w) Clients \<Rightarrow> ('a, 'w) Clients" where
  "garbageCollect c = c\<lparr>BDVs_' := gc_sweep (BDVs_' c)\<rparr>"

text \<open>
  The calls that change the registry, and a history of such calls applied one after
  the other.
\<close>

datatype 'a registry_op =
  RegisterBDV "string \<rightharpoonup> 'a handler" "SocketCallback option" string
| UnregisterBDV string
| GarbageCollect

fun apply_op :: "'a registry_op \<Rightarrow> ('a, 'w) Clients \<Rightarrow> ('a, 'w) Clients" where
  "apply_op (RegisterBDV table cb newId) c = snd (registerBDV table cb newId c)"
| "apply_op (UnregisterBDV bdvId) c = fst (unregisterBDV bdvId c)"
| "apply_op GarbageCollect c = garbageCollect c"

fun run_ops :: "'a registry_op list \<Rightarrow> ('a, 'w) Clients \<Rightarrow> ('a, 'w) Clients" where
  "run_ops [] c = c"
| "run_ops (op # ops) c = run_ops ops (apply_op op c)"







text \<open>
  Modelled from the spec: \<^verbatim>\<open>shutdown\<close> and \<^verbatim>\<open>unregisterAllBDVs\<close> are only
  declared. By the spec the orchestrator is Running (threads active), then ShuttingDown
  (run flag cleared), then Stopped (all threads joined), and \<^verbatim>\<open>shutdown()\<close> flips
  to ShuttingDown, joins all orchestrator threads, unregisters every remaining session and
  invokes the externally supplied shutdown callback.
\<close>

datatype phase = Running | ShuttingDown | Stopped

definition phase_of :: "('a, 'w) Clients \<Rightarrow> phase" where
  "phase_of c =
     (if run_' c then Running
      else if list_ex joinable (controlThreads_' c) then ShuttingDown
      else Stopped)"

definition clear_run :: "('a, 'w) Clients \<Rightarrow> ('a, 'w) Clients" where
  "clear_run c = c\<lparr>run_' := False\<rparr>"

definition join :: "thread \<Rightarrow> thread" where
  "join t = t\<lparr>joinable := False\<rparr>"

definition join_all :: "('a, 'w) Clients \<Rightarrow> ('a, 'w) Clients" where
  "join_all c = c\<lparr>controlThreads_' := map join (controlThreads_' c)\<rparr>"

definition unregisterAllBDVs :: "('a, 'w) Clients \<Rightarrow> ('a, 'w) Clients" where
  "unregisterAllBDVs c = fold (\<lambda>bdvId c'. fst (unregisterBDV bdvId c')) (map fst (BDVs_' c)) c"

definition shutdown :: "('a, 'w) Clients \<Rightarrow> 'w \<Rightarrow> ('a, 'w) Clients \<times> 'w" where
  "shutdown c w =
     (let c1 = clear_run c;
          c2 = join_all c1;
          c3 = unregisterAllBDVs c2
      in (c3, fcgiShutdownCallback_' c3 w))"

section \<open>Properties of the liveness-tracked callback\<close>

lemma isValid_acquired:
  "mu_' cb = None \<Longrightarrow>
     isValid cb = (\<not> CALLBACK_EXPIRE_COUNT \<le> count_' cb + 1, cb\<lparr>count_' := count_' cb + 1\<rparr>)"
  by (simp add: isValid_def try_lock_def Let_def)

lemma isValid_not_acquired: "mu_' cb \<noteq> None \<Longrightarrow> isValid cb = (True, cb)"
  by (auto simp add: isValid_def try_lock_def)

lemma isValid_repeat_count:
  "mu_' cb = None \<Longrightarrow> isValid_repeat n cb = cb\<lparr>count_' := count_' cb + of_nat n\<rparr>"
proof (induction n arbitrary: cb)
  case 0
  then show ?case by simp
next
  case (Suc n)
  have step: "snd (isValid cb) = cb\<lparr>count_' := count_' cb + 1\<rparr>"
    using Suc.prems by (simp add: isValid_acquired)
  have "isValid_repeat (Suc n) cb = isValid_repeat n (cb\<lparr>count_' := count_' cb + 1\<rparr>)"
    by (simp add: step)
  also have "\<dots> = cb\<lparr>count_' := count_' cb + 1 + of_nat n\<rparr>"
    using Suc.prems by (simp add: Suc.IH)
  finally show ?case by (simp add: add.assoc add.commute)
qed

lemma isValid_after_repeat:
  assumes "count_' cb = 0" and "mu_' cb = None" and "n < 2 ^ 32 - 1"
  shows "fst (isValid (isValid_repeat n cb)) = (n < 4)"
proof -
  have rep: "isValid_repeat n cb = cb\<lparr>count_' := of_nat n\<rparr>"
    using assms by (simp add: isValid_repeat_count)
  have "of_nat n + (1 :: 32 word) = of_nat (Suc n)" by simp
  moreover have "unat (of_nat (Suc n) :: 32 word) = Suc n"
    using assms(3) by (simp add: unat_of_nat del: of_nat_Suc)
  ultimately have "((5 :: 32 word) \<le> of_nat n + 1) = (5 \<le> Suc n)"
    by (simp add: word_le_nat_alt del: of_nat_Suc)
  then show ?thesis
    using assms(2) by (auto simp add: rep isValid_acquired CALLBACK_EXPIRE_COUNT_def)
qed

lemma isValid_results_acquired:
  "mu_' cb = None \<Longrightarrow>
     isValid_results (Suc n) cb =
       (\<not> CALLBACK_EXPIRE_COUNT \<le> count_' cb + 1)
         # isValid_results n (cb\<lparr>count_' := count_' cb + 1\<rparr>)"
  by (simp add: isValid_acquired)

lemma isValid_results_4:
  assumes "mu_' cb = None" and "count_' cb = 0"
  shows "isValid_results 4 cb = [True, True, True, True]"
proof -
  have four: "(4::nat) = Suc (Suc (Suc (Suc 0)))" by simp
  show ?thesis
    unfolding four using assms
    by (simp add: isValid_results_acquired CALLBACK_EXPIRE_COUNT_def word_le_nat_alt
        del: isValid_results.simps(2))
qed

text \<open>
  C1, as amended. A call of \<^verbatim>\<open>isValid()\<close> that acquires the probe lock (\<^verbatim>\<open>mu_\<close> is
  free) adds one to the counter, modulo \<open>2 ^ 32\<close>, and returns false exactly when the
  incremented counter is at least \<^verbatim>\<open>CALLBACK_EXPIRE_COUNT\<close>; a call that does not
  acquire it returns true and changes nothing. Hence, starting from a counter of zero, the
  call that follows \<open>n\<close> consecutive lock-acquiring calls, with no
  \<^verbatim>\<open>resetCounter()\<close> in between, returns true when it is one of the first four calls
  and false from the fifth call on, as long as fewer than \<open>2 ^ 32\<close> calls are made in
  all (\<open>n + 1 < 2 ^ 32\<close>).
\<close>

theorem isValid_expiry:
  "(mu_' cb = None \<longrightarrow>
      isValid cb = (\<not> CALLBACK_EXPIRE_COUNT \<le> count_' cb + 1, cb\<lparr>count_' := count_' cb + 1\<rparr>))
   \<and> (mu_' cb \<noteq> None \<longrightarrow> isValid cb = (True, cb))
   \<and> (count_' cb0 = 0 \<and> mu_' cb0 = None \<and> n < 2 ^ 32 - 1 \<longrightarrow>
        fst (isValid (isValid_repeat n cb0)) = (n < 4))"
  using isValid_acquired isValid_not_acquired isValid_after_repeat by blast

text \<open>
  On a fresh callback: the first call returns true and leaves the counter at one; a call
  while a responder owns \<^verbatim>\<open>mu_\<close> returns true and changes nothing; the fourth call
  returns true, the fifth and the 1001st return false.
\<close>

theorem isValid_expiry_witness:
  "isValid (SocketCallback_ctor idle) = (True, (SocketCallback_ctor idle)\<lparr>count_' := 1\<rparr>)
   \<and> isValid ((SocketCallback_ctor idle)\<lparr>mu_' := Some (Responder 0)\<rparr>)
       = (True, (SocketCallback_ctor idle)\<lparr>mu_' := Some (Responder 0)\<rparr>)
   \<and> fst (isValid (isValid_repeat 3 (SocketCallback_ctor idle))) = True
   \<and> fst (isValid (isValid_repeat 4 (SocketCallback_ctor idle))) = False
   \<and> fst (isValid (isValid_repeat 1000 (SocketCallback_ctor idle))) = False"
  using isValid_expiry [of "SocketCallback_ctor idle" "SocketCallback_ctor idle" 3]
    isValid_expiry [of "(SocketCallback_ctor idle)\<lparr>mu_' := Some (Responder 0)\<rparr>"
      "SocketCallback_ctor idle" 4]
    isValid_expiry [of "SocketCallback_ctor idle" "SocketCallback_ctor idle" 1000]
  by (simp add: SocketCallback_ctor_def CALLBACK_EXPIRE_COUNT_def word_le_nat_alt)

text \<open>
  C1 as stated fails where the counter wraps around: on a fresh callback with \<^verbatim>\<open>mu_\<close>
  free, after \<open>2 ^ 32 - 1 = 4294967295\<close> consecutive calls of \<^verbatim>\<open>isValid()\<close>, each of
  which acquires the lock, and no \<^verbatim>\<open>resetCounter()\<close>, the counter is \<open>2 ^ 32 - 1\<close>;
  the next call increments it to zero and returns true.
\<close>

theorem isValid_wraps:
  "count_' (SocketCallback_ctor idle) = 0 \<and> mu_' (SocketCallback_ctor idle) = None
   \<and> count_' (isValid_repeat 4294967295 (SocketCallback_ctor idle)) = 4294967295
   \<and> fst (isValid (isValid_repeat 4294967295 (SocketCallback_ctor idle))) = True"
proof -
  have "mu_' (SocketCallback_ctor idle) = None" by (simp add: SocketCallback_ctor_def)
  then have "isValid_repeat 4294967295 (SocketCallback_ctor idle)
      = (SocketCallback_ctor idle)
          \<lparr>count_' := count_' (SocketCallback_ctor idle) + of_nat 4294967295\<rparr>"
    by (rule isValid_repeat_count)
  then show ?thesis
    by (simp add: SocketCallback_ctor_def isValid_def try_lock_def CALLBACK_EXPIRE_COUNT_def)
qed

text \<open>
  C7. Whatever the counter was, \<^verbatim>\<open>resetCounter()\<close> sets it to zero, the value the
  constructor gives it; calling it twice is the same as calling it once; and after it the
  next four calls of \<^verbatim>\<open>isValid()\<close> that acquire the lock all return true.
\<close>

theorem resetCounter_fresh:
  "count_' (resetCounter cb) = 0
   \<and> count_' (resetCounter cb) = count_' (SocketCallback_ctor r)
   \<and> resetCounter (resetCounter cb) = resetCounter cb
   \<and> (mu_' cb = None \<longrightarrow> isValid_results 4 (resetCounter cb) = [True, True, True, True])"
  by (simp add: resetCounter_def SocketCallback_ctor_def isValid_results_4)

text \<open>A callback probed nine times has a counter of nine; reset, it passes four probes again.\<close>

theorem resetCounter_fresh_witness:
  "count_' (resetCounter (isValid_repeat 9 (SocketCallback_ctor idle))) = 0
   \<and> count_' (isValid_repeat 9 (SocketCallback_ctor idle)) = 9
   \<and> isValid_results 4 (resetCounter (isValid_repeat 9 (SocketCallback_ctor idle)))
       = [True, True, True, True]"
proof -
  have free: "mu_' (SocketCallback_ctor idle) = None" by (simp add: SocketCallback_ctor_def)
  have nine: "isValid_repeat 9 (SocketCallback_ctor idle) = (SocketCallback_ctor idle)\<lparr>count_' := 9\<rparr>"
    using isValid_repeat_count [OF free, of 9] by (simp add: SocketCallback_ctor_def)
  show ?thesis
    using resetCounter_fresh [of "isValid_repeat 9 (SocketCallback_ctor idle)" idle]
    by (simp add: nine free)
qed

subsection \<open>The destructor\<close>








section \<open>Properties of the session\<close>

text \<open>
  C10. For a session without a callback (\<^verbatim>\<open>cb_\<close> is null),
  \<^verbatim>\<open>BDV_Server_Object::resetCounter()\<close> returns normally and leaves the session as it
  was. It never dereferences a null pointer, whatever the session; with a callback
  attached it resets that callback's counter.
\<close>

theorem BDV_resetCounter_null_safe:
  "(cb_' bdv = None \<longrightarrow> BDV_resetCounter bdv = Inr bdv)
   \<and> BDV_resetCounter bdv \<noteq> Inl NullDereference
   \<and> (cb_' bdv = Some cb \<longrightarrow> BDV_resetCounter bdv = Inr (bdv\<lparr>cb_' := Some (resetCounter cb)\<rparr>))"
  by (auto simp add: BDV_resetCounter_def deref_def split: option.splits)

text \<open>A session without a callback, and one whose callback has missed three probes.\<close>

theorem BDV_resetCounter_null_safe_witness:
  "BDV_resetCounter (BDV_Server_Object_ctor Map.empty None ''a1'' :: unit BDV_Server_Object)
     = Inr (BDV_Server_Object_ctor Map.empty None ''a1'')
   \<and> BDV_resetCounter (BDV_Server_Object_ctor Map.empty
         (Some ((SocketCallback_ctor idle)\<lparr>count_' := 3\<rparr>)) ''a1'' :: unit BDV_Server_Object)
     = Inr (BDV_Server_Object_ctor Map.empty (Some (SocketCallback_ctor idle)) ''a1'')"
  using BDV_resetCounter_null_safe
      [of "BDV_Server_Object_ctor Map.empty None ''a1'' :: unit BDV_Server_Object"]
    BDV_resetCounter_null_safe [of "BDV_Server_Object_ctor Map.empty
         (Some ((SocketCallback_ctor idle)\<lparr>count_' := 3\<rparr>)) ''a1'' :: unit BDV_Server_Object"
         "(SocketCallback_ctor idle)\<lparr>count_' := 3\<rparr>"]
  by (simp add: BDV_Server_Object_ctor_def resetCounter_def SocketCallback_ctor_def)

text \<open>
  C4. When \<open>method\<close> is not a key of the dispatch table, \<^verbatim>\<open>executeCommand\<close> returns
  the "unknown method" error result and invokes no handler. When it is a key, the call
  invokes the handler stored under it, once, with \<open>ids\<close> and \<open>args\<close>, and returns what
  the handler returned. Either way the call returns a result.
\<close>

theorem executeCommand_dispatch:
  "(method \<notin> dom (methodMap_' bdv) \<longrightarrow>
      executeCommand bdv method ids args = (ErrorResult ''unknown method'', []))
   \<and> (methodMap_' bdv method = Some handler \<longrightarrow>
      executeCommand bdv method ids args = (handler ids args, [(method, ids, args)]))"
  by (auto simp add: executeCommand_def split: option.splits)

text \<open>A session whose table has the one method \<open>echo\<close>, which returns its arguments.\<close>

theorem executeCommand_dispatch_witness:
  "executeCommand (BDV_Server_Object_ctor [''echo'' \<mapsto> (\<lambda>ids args. args)] None ''a1'')
      ''frobnicate'' [''w1''] (Args (7::nat)) = (ErrorResult ''unknown method'', [])
   \<and> executeCommand (BDV_Server_Object_ctor [''echo'' \<mapsto> (\<lambda>ids args. args)] None ''a1'')
      ''echo'' [''w1''] (Args (7::nat)) = (Args 7, [(''echo'', [''w1''], Args 7)])"
  using executeCommand_dispatch
    [of "''frobnicate''" "BDV_Server_Object_ctor [''echo'' \<mapsto> (\<lambda>ids args. args)] None ''a1''"
      "[''w1'']" "Args (7::nat)" "\<lambda>ids args. args"]
    executeCommand_dispatch
    [of "''echo''" "BDV_Server_Object_ctor [''echo'' \<mapsto> (\<lambda>ids args. args)] None ''a1''"
      "[''w1'']" "Args (7::nat)" "\<lambda>ids args. args"]
  by (simp add: BDV_Server_Object_ctor_def)

section \<open>Properties of the orchestrator\<close>

subsection \<open>The threads the constructor starts\<close>

lemma spawn_inner_eq:
  "i \<le> n \<Longrightarrow> spawn_inner i n ts = ts @ replicate (unat n - unat i) (start_thread innerthread)"
proof (induction i n ts rule: spawn_inner.induct)
  case (1 i n ts)
  show ?case
  proof (cases "i < n")
    case True
    then have s: "unat (i + 1) = Suc (unat i)" by (rule unat_inc)
    have lt: "unat i < unat n" using True by (simp add: word_less_nat_alt)
    have le: "i + 1 \<le> n" using s lt by (simp add: word_le_nat_alt)
    have "unat n - unat i = Suc (unat n - unat (i + 1))" using s lt by simp
    then show ?thesis
      using 1(1)[OF True le] True
      by (subst spawn_inner.simps) (simp add: replicate_append_same)
  next
    case False
    with 1(2) have "i = n" by simp
    then show ?thesis by (subst spawn_inner.simps) simp
  qed
qed

lemma innerThreadCount_2: "innerThreadCount dbType nodeType hw = 2"
  by (simp add: innerThreadCount_def Let_def)

lemma controlThreads_ctor:
  "controlThreads_' (Clients_ctor dbType nodeType hw f :: ('a, 'w) Clients) =
     [start_thread mainthread, start_thread outerthread, start_thread innerthread,
      start_thread innerthread] @ (if nodeType = Node_UnitTest then [] else [start_thread gcThread])"
  by (simp add: Clients_ctor_def Let_def innerThreadCount_2 spawn_inner_eq eval_nat_numeral)

lemma BDVs_ctor: "BDVs_' (Clients_ctor dbType nodeType hw f) = []"
  by (simp add: Clients_ctor_def Let_def)

lemma fcgi_ctor: "fcgiShutdownCallback_' (Clients_ctor dbType nodeType hw f) = f"
  by (simp add: Clients_ctor_def Let_def)

text \<open>
  C2 fails on the code. With the database type \<^verbatim>\<open>ARMORY_DB_SUPER\<close>, a node that is
  not a unit-test node and a hardware concurrency of 8, the constructor starts two inner
  maintenance threads, not eight: the statement meant to scale the count compares
  (\<^verbatim>\<open>==\<close>) where it should assign.
\<close>

theorem inner_threads_ignore_hardware_concurrency:
  "thread_count innerthread (Clients_ctor ARMORY_DB_SUPER Node_BTC 8 Suc :: (unit, nat) Clients) = 2"
  by (simp add: thread_count_def controlThreads_ctor start_thread_def)

text \<open>
  C8. The constructor starts the garbage collector thread exactly when the node is not a
  unit-test node: for any other node type \<^verbatim>\<open>controlThreads_\<close> holds one thread with
  the collector's body and that thread is running; for \<^verbatim>\<open>Node_UnitTest\<close> it holds
  none, running or not; whatever the database type and the hardware.
\<close>

theorem gc_thread_iff_not_unit_test:
  "running_count gcThread (Clients_ctor dbType nodeType hw f :: ('a, 'w) Clients) =
     (if nodeType = Node_UnitTest then 0 else 1)
   \<and> thread_count gcThread (Clients_ctor dbType nodeType hw f :: ('a, 'w) Clients) =
     (if nodeType = Node_UnitTest then 0 else 1)
   \<and> filter (\<lambda>t. body t = gcThread)
       (controlThreads_' (Clients_ctor dbType nodeType hw f :: ('a, 'w) Clients)) =
     (if nodeType = Node_UnitTest then [] else [\<lparr>body = gcThread, joinable = True\<rparr>])"
  by (simp add: running_count_def thread_count_def controlThreads_ctor start_thread_def)

theorem gc_thread_iff_not_unit_test_witness:
  "running_count gcThread (Clients_ctor ARMORY_DB_FULL Node_BTC 4 Suc :: (unit, nat) Clients) = 1
   \<and> running_count gcThread (Clients_ctor ARMORY_DB_SUPER Node_BTC 4 Suc :: (unit, nat) Clients) = 1
   \<and> running_count gcThread (Clients_ctor ARMORY_DB_FULL Node_UnitTest 4 Suc :: (unit, nat) Clients) = 0
   \<and> thread_count gcThread (Clients_ctor ARMORY_DB_FULL Node_BTC 4 Suc :: (unit, nat) Clients) = 1
   \<and> thread_count gcThread (Clients_ctor ARMORY_DB_SUPER Node_BTC 4 Suc :: (unit, nat) Clients) = 1
   \<and> thread_count gcThread (Clients_ctor ARMORY_DB_FULL Node_UnitTest 4 Suc :: (unit, nat) Clients) = 0"
  using gc_thread_iff_not_unit_test [where ?'a = unit, of ARMORY_DB_FULL Node_BTC 4 Suc]
    gc_thread_iff_not_unit_test [where ?'a = unit, of ARMORY_DB_SUPER Node_BTC 4 Suc]
    gc_thread_iff_not_unit_test [where ?'a = unit, of ARMORY_DB_FULL Node_UnitTest 4 Suc]
  by simp

subsection \<open>The registry\<close>















subsection \<open>Shutdown\<close>

lemma fold_unregister_BDVs:
  "BDVs_' (fold (\<lambda>bdvId c'. fst (unregisterBDV bdvId c')) ks c) =
     filter (\<lambda>(k, bdv). k \<notin> set ks) (BDVs_' c)"
proof (induction ks arbitrary: c)
  case Nil
  then show ?case by simp
next
  case (Cons k ks)
  have one: "BDVs_' (fst (unregisterBDV k c)) = filter (\<lambda>(k', bdv). k' \<noteq> k) (BDVs_' c)"
    by (auto simp add: unregisterBDV_def AList.delete_eq intro: filter_cong)
  have "BDVs_' (fold (\<lambda>bdvId c'. fst (unregisterBDV bdvId c')) (k # ks) c) =
      filter (\<lambda>(k', bdv). k' \<notin> set ks) (BDVs_' (fst (unregisterBDV k c)))"
    by (simp only: fold_simps Cons.IH)
  then show ?case
    by (auto simp add: one intro: filter_cong)
qed

lemma fold_unregister_rest:
  "run_' (fold (\<lambda>bdvId c'. fst (unregisterBDV bdvId c')) ks c) = run_' c
   \<and> controlThreads_' (fold (\<lambda>bdvId c'. fst (unregisterBDV bdvId c')) ks c) = controlThreads_' c
   \<and> fcgiShutdownCallback_' (fold (\<lambda>bdvId c'. fst (unregisterBDV bdvId c')) ks c)
       = fcgiShutdownCallback_' c"
  by (induction ks arbitrary: c) (simp_all add: unregisterBDV_def)

lemma unregisterAllBDVs_empty: "BDVs_' (unregisterAllBDVs c) = []"
  by (force simp add: unregisterAllBDVs_def fold_unregister_BDVs filter_empty_conv)

lemma unregisterAllBDVs_rest:
  "run_' (unregisterAllBDVs c) = run_' c
   \<and> controlThreads_' (unregisterAllBDVs c) = controlThreads_' c
   \<and> fcgiShutdownCallback_' (unregisterAllBDVs c) = fcgiShutdownCallback_' c"
  by (simp add: unregisterAllBDVs_def fold_unregister_rest)

text \<open>
  C6. \<^verbatim>\<open>shutdown()\<close> leaves the run flag cleared; clearing it takes the orchestrator
  out of Running, to ShuttingDown while a thread is still joinable. Every thread of
  \<^verbatim>\<open>controlThreads_\<close> is joined and none is dropped, so the orchestrator ends Stopped.
  The registry is empty when the call returns. The state of the outer request server after
  the call is the one the supplied shutdown callback makes of the state before: the
  callback is applied once.
\<close>

theorem shutdown_stops:
  "run_' (fst (shutdown c w)) = False
   \<and> controlThreads_' (fst (shutdown c w)) = map join (controlThreads_' c)
   \<and> list_all (\<lambda>t. \<not> joinable t) (controlThreads_' (fst (shutdown c w)))
   \<and> BDVs_' (fst (shutdown c w)) = []
   \<and> snd (shutdown c w) = fcgiShutdownCallback_' c w
   \<and> phase_of (clear_run c) = (if list_ex joinable (controlThreads_' c) then ShuttingDown else Stopped)
   \<and> phase_of (fst (shutdown c w)) = Stopped"
  by (simp add: shutdown_def Let_def unregisterAllBDVs_empty unregisterAllBDVs_rest
      join_all_def clear_run_def phase_of_def join_def list_all_iff list_ex_iff)

text \<open>
  An orchestrator with two sessions registered, whose shutdown callback counts its
  invocations: after \<^verbatim>\<open>shutdown()\<close> the registry is empty, the flag is cleared, the
  five threads are joined and the count went from 0 to 1.
\<close>

theorem shutdown_stops_witness:
  "map fst (BDVs_'
      (run_ops [RegisterBDV Map.empty None ''a1'', RegisterBDV Map.empty None ''b2'']
         (Clients_ctor ARMORY_DB_FULL Node_BTC 4 Suc :: (unit, nat) Clients))) = [''a1'', ''b2'']
   \<and> BDVs_' (fst (shutdown
      (run_ops [RegisterBDV Map.empty None ''a1'', RegisterBDV Map.empty None ''b2'']
         (Clients_ctor ARMORY_DB_FULL Node_BTC 4 Suc :: (unit, nat) Clients)) 0)) = []
   \<and> run_' (fst (shutdown
      (run_ops [RegisterBDV Map.empty None ''a1'', RegisterBDV Map.empty None ''b2'']
         (Clients_ctor ARMORY_DB_FULL Node_BTC 4 Suc :: (unit, nat) Clients)) 0)) = False
   \<and> map joinable (controlThreads_' (fst (shutdown
      (run_ops [RegisterBDV Map.empty None ''a1'', RegisterBDV Map.empty None ''b2'']
         (Clients_ctor ARMORY_DB_FULL Node_BTC 4 Suc :: (unit, nat) Clients)) 0)))
       = [False, False, False, False, False]
   \<and> snd (shutdown
      (run_ops [RegisterBDV Map.empty None ''a1'', RegisterBDV Map.empty None ''b2'']
         (Clients_ctor ARMORY_DB_FULL Node_BTC 4 Suc :: (unit, nat) Clients)) 0) = 1
   \<and> phase_of (clear_run
      (run_ops [RegisterBDV Map.empty None ''a1'', RegisterBDV Map.empty None ''b2'']
         (Clients_ctor ARMORY_DB_FULL Node_BTC 4 Suc :: (unit, nat) Clients))) = ShuttingDown"
proof -
  let ?c = "run_ops [RegisterBDV Map.empty None ''a1'', RegisterBDV Map.empty None ''b2'']
         (Clients_ctor ARMORY_DB_FULL Node_BTC 4 Suc :: (unit, nat) Clients)"
  have threads: "controlThreads_' ?c =
      [start_thread mainthread, start_thread outerthread, start_thread innerthread,
       start_thread innerthread, start_thread gcThread]"
    by (simp add: registerBDV_def Let_def controlThreads_ctor)
  have f: "fcgiShutdownCallback_' ?c = Suc"
    by (simp add: registerBDV_def Let_def fcgi_ctor)
  have ids: "map fst (BDVs_' ?c) = [''a1'', ''b2'']"
    by (simp add: registerBDV_def Let_def BDVs_ctor getID_def BDV_Server_Object_ctor_def)
  have "BDVs_' (fst (shutdown ?c 0)) = []
     \<and> run_' (fst (shutdown ?c 0)) = False
     \<and> map joinable (controlThreads_' (fst (shutdown ?c 0))) = [False, False, False, False, False]
     \<and> snd (shutdown ?c 0) = 1
     \<and> phase_of (clear_run ?c) = ShuttingDown"
    using shutdown_stops [of ?c 0]
    by (simp only: threads f) (simp add: start_thread_def join_def)
  with ids show ?thesis by (intro conjI) simp_all
qed

end
